theory Spec2Isabelle
  imports Complex_Main "HOL-Library.AList"
begin

section \<open>Exceptions, values and the interpreter state\<close>

text \<open>
  The classes that the two notebooks raise, catch or inspect. The two classes named
  \<open>MyCustomErrorType\<close> are the definitions at lines 65 and 81 of
  \<^verbatim>\<open>040Exceptions.ipynb.py\<close>; \<open>YAMLError\<close> is the error class of the yaml module;
  \<open>Object\<close> is the root class \<^verbatim>\<open>object\<close>.
\<close>

datatype cls =
    Object | BaseException | Exception
  | ArithmeticError | ZeroDivisionError
  | LookupError | KeyError
  | NameError | UnboundLocalError
  | OSError | FileNotFoundError
  | SyntaxError | TypeError | ValueError | RuntimeError | AttributeError
  | YAMLError
  | MyCustomErrorType_65 | MyCustomErrorType_81

text \<open>The proper base classes of a class, nearest first (Python's exception hierarchy).\<close>

fun bases :: "cls \<Rightarrow> cls list" where
  "bases Object = []"
| "bases BaseException = [Object]"
| "bases Exception = [BaseException, Object]"
| "bases ZeroDivisionError = [ArithmeticError, Exception, BaseException, Object]"
| "bases KeyError = [LookupError, Exception, BaseException, Object]"
| "bases UnboundLocalError = [NameError, Exception, BaseException, Object]"
| "bases FileNotFoundError = [OSError, Exception, BaseException, Object]"
| "bases MyCustomErrorType_65 = [ArithmeticError, Exception, BaseException, Object]"
| "bases c = [Exception, BaseException, Object]"

definition issubclass :: "cls \<Rightarrow> cls \<Rightarrow> bool" where
  "issubclass c k \<longleftrightarrow> c = k \<or> List.member (bases c) k"

text \<open>In Python 3 the name \<open>IOError\<close> is an alias of \<open>OSError\<close>.\<close>

abbreviation IOError :: cls where
  "IOError \<equiv> OSError"

text \<open>
  An exception object: its class, the argument text written where the source constructs
  it (empty for exceptions raised by the interpreter or a library, whose message texts
  are not modelled), and the cause attached by \<^verbatim>\<open>raise ... from\<close>.
\<close>

datatype exn = Exn (exn_cls: cls) (exn_arg: string) (exn_cause: "exn option")

datatype pyval =
    PNone
  | PBool bool
  | PInt int
  | PStr string
  | PList "pyval list"
  | PTuple "pyval list"
  | PDict "(string \<times> pyval) list"
  | PFile nat
  | PExn exn
  | PFunc string nat
  | PModule string
  | PClass cls

text \<open>
  \<open>PFile h\<close> is the file object number \<open>h\<close> of the state; \<open>PFunc name line\<close> is the
  function object made by the \<^verbatim>\<open>def name\<close> at that source line; \<open>PModule\<close> is an
  imported module. Dictionaries have string keys and keep insertion order.
\<close>

record fobj =
  f_path :: string
  f_text :: string
  f_open :: bool

record state =
  globals :: "(string \<times> pyval) list"
  locals :: "(string \<times> pyval) list"
  files :: "(string \<times> string) list"
  handles :: "fobj list"
  out :: "pyval list"
  shown :: "pyval list"

text \<open>
  \<open>globals\<close> is the notebook's module namespace, \<open>locals\<close> the frame of the running
  function, \<open>files\<close> the working directory (path to text), \<open>handles\<close> the file objects
  created so far, \<open>out\<close> the values printed so far, \<open>shown\<close> the values that
  cells have displayed as their result so far.
\<close>

type_synonym expr = "state \<Rightarrow> (exn + pyval) \<times> state"

datatype flow = Next | Raise exn | Return pyval

type_synonym stmt = "state \<Rightarrow> flow \<times> state"

text \<open>The loader \<^verbatim>\<open>yaml.safe_load\<close>, as a function of the text it is given.\<close>

type_synonym loader = "string \<Rightarrow> exn + pyval"

section \<open>Expressions\<close>

definition raised :: "cls \<Rightarrow> exn" where
  "raised c = Exn c [] None"

definition const :: "pyval \<Rightarrow> expr" where
  "const v s = (Inr v, s)"

definition bind_e :: "expr \<Rightarrow> (pyval \<Rightarrow> expr) \<Rightarrow> expr" where
  "bind_e e f s = (case e s of (Inl x, s') \<Rightarrow> (Inl x, s') | (Inr v, s') \<Rightarrow> f v s')"

text \<open>
  A name that a function body assigns is local to it: reading it while it is unbound
  raises \<open>UnboundLocalError\<close>. Any other name is read from the module namespace, and
  raises \<open>NameError\<close> when it is unbound there.
\<close>

definition local_var :: "string \<Rightarrow> expr" where
  "local_var n s =
     (case map_of (locals s) n of
        None \<Rightarrow> (Inl (raised UnboundLocalError), s)
      | Some v \<Rightarrow> (Inr v, s))"

definition global_var :: "string \<Rightarrow> expr" where
  "global_var n s =
     (case map_of (globals s) n of
        None \<Rightarrow> (Inl (raised NameError), s)
      | Some v \<Rightarrow> (Inr v, s))"

text \<open>\<^verbatim>\<open>v[k]\<close> for a string key: only a dictionary can be subscripted by a string.\<close>

definition getitem :: "pyval \<Rightarrow> string \<Rightarrow> exn + pyval" where
  "getitem v k =
     (case v of
        PDict d \<Rightarrow> (case map_of d k of None \<Rightarrow> Inl (raised KeyError) | Some x \<Rightarrow> Inr x)
      | _ \<Rightarrow> Inl (raised TypeError))"

definition subscript :: "expr \<Rightarrow> string \<Rightarrow> expr" where
  "subscript e k = bind_e e (\<lambda>v s. (getitem v k, s))"

text \<open>
  \<^verbatim>\<open>open(p)\<close> for reading. A path that is absent from the directory raises
  \<open>FileNotFoundError\<close>; otherwise a new open file object on the file's text is made. A
  value that is no path (and no descriptor) is a \<open>TypeError\<close>; an integer (or a
  boolean, which is an integer) names a descriptor, none of which is open for reading
  here.
\<close>

definition py_open :: "pyval \<Rightarrow> expr" where
  "py_open v s =
     (case v of
        PStr p \<Rightarrow>
          (case map_of (files s) p of
             None \<Rightarrow> (Inl (raised FileNotFoundError), s)
           | Some t \<Rightarrow>
               (Inr (PFile (length (handles s))),
                s\<lparr>handles := handles s @ [\<lparr>f_path = p, f_text = t, f_open = True\<rparr>]\<rparr>))
      | PInt n \<Rightarrow> (Inl (raised OSError), s)
      | PBool b \<Rightarrow> (Inl (raised OSError), s)
      | _ \<Rightarrow> (Inl (raised TypeError), s))"

definition open_e :: "expr \<Rightarrow> expr" where
  "open_e e = bind_e e py_open"

text \<open>\<^verbatim>\<open>v.close()\<close>: closing a file object, also one that is closed already.\<close>

definition py_close :: "pyval \<Rightarrow> expr" where
  "py_close v s =
     (case v of
        PFile h \<Rightarrow>
          (if h < length (handles s)
           then (Inr PNone, s\<lparr>handles := (handles s)[h := (handles s ! h)\<lparr>f_open := False\<rparr>]\<rparr>)
           else (Inl (raised ValueError), s))
      | _ \<Rightarrow> (Inl (raised AttributeError), s))"

definition close_e :: "expr \<Rightarrow> expr" where
  "close_e e = bind_e e py_close"

text \<open>
  \<^verbatim>\<open>yaml.a(v)\<close>: the name \<open>yaml\<close> is read from the module namespace and its attribute
  \<open>a\<close> is looked up, then the argument is evaluated. The only attribute of the module
  that the notebook really has is \<^verbatim>\<open>safe_load\<close>. A string is loaded as it is, an open
  file object is read and its text loaded; reading a closed file is a \<open>ValueError\<close>, and
  any other value has no \<^verbatim>\<open>read\<close> attribute. Every file object is read at most once
  in the notebook, so the position in the file is not kept.
\<close>

definition load_value :: "loader \<Rightarrow> pyval \<Rightarrow> expr" where
  "load_value sl v s =
     (case v of
        PStr t \<Rightarrow> (sl t, s)
      | PFile h \<Rightarrow>
          (if h < length (handles s) \<and> f_open (handles s ! h)
           then (sl (f_text (handles s ! h)), s)
           else (Inl (raised ValueError), s))
      | _ \<Rightarrow> (Inl (raised AttributeError), s))"

definition yaml_attr :: "string \<Rightarrow> expr" where
  "yaml_attr a =
     bind_e (global_var ''yaml'')
       (\<lambda>m s. if m = PModule ''yaml'' \<and> a = ''safe_load''
              then (Inr m, s) else (Inl (raised AttributeError), s))"

definition yaml_call :: "string \<Rightarrow> loader \<Rightarrow> expr \<Rightarrow> expr" where
  "yaml_call a sl e = bind_e (yaml_attr a) (\<lambda>m. bind_e e (load_value sl))"

definition yaml_safe_load :: "loader \<Rightarrow> expr \<Rightarrow> expr" where
  "yaml_safe_load sl e = yaml_call ''safe_load'' sl e"

definition tuple2 :: "expr \<Rightarrow> expr \<Rightarrow> expr" where
  "tuple2 a b = bind_e a (\<lambda>x. bind_e b (\<lambda>y. const (PTuple [x, y])))"

section \<open>Statements\<close>

definition pass :: stmt where
  "pass s = (Next, s)"

fun block :: "stmt list \<Rightarrow> stmt" where
  "block [] s = (Next, s)"
| "block (c # cs) s =
     (case c s of (Next, s') \<Rightarrow> block cs s' | (fl, s') \<Rightarrow> (fl, s'))"

definition assign :: "string \<Rightarrow> expr \<Rightarrow> stmt" where
  "assign n e s =
     (case e s of
        (Inl x, s') \<Rightarrow> (Raise x, s')
      | (Inr v, s') \<Rightarrow> (Next, s'\<lparr>locals := AList.update n v (locals s')\<rparr>))"

definition gassign :: "string \<Rightarrow> expr \<Rightarrow> stmt" where
  "gassign n e s =
     (case e s of
        (Inl x, s') \<Rightarrow> (Raise x, s')
      | (Inr v, s') \<Rightarrow> (Next, s'\<lparr>globals := AList.update n v (globals s')\<rparr>))"

definition expr_stmt :: "expr \<Rightarrow> stmt" where
  "expr_stmt e s = (case e s of (Inl x, s') \<Rightarrow> (Raise x, s') | (Inr v, s') \<Rightarrow> (Next, s'))"

definition print_stmt :: "expr \<Rightarrow> stmt" where
  "print_stmt e s =
     (case e s of
        (Inl x, s') \<Rightarrow> (Raise x, s')
      | (Inr v, s') \<Rightarrow> (Next, s'\<lparr>out := out s' @ [v]\<rparr>))"

definition return_stmt :: "expr \<Rightarrow> stmt" where
  "return_stmt e s = (case e s of (Inl x, s') \<Rightarrow> (Raise x, s') | (Inr v, s') \<Rightarrow> (Return v, s'))"

definition raise_stmt :: "exn \<Rightarrow> stmt" where
  "raise_stmt x s = (Raise x, s)"

text \<open>
  The \<^verbatim>\<open>try\<close> statement. An \<^verbatim>\<open>except\<close> clause is the class it names (\<open>None\<close> for a
  bare \<^verbatim>\<open>except:\<close>) and its body, which is given the exception caught (what
  \<^verbatim>\<open>as e\<close> binds and a bare \<^verbatim>\<open>raise\<close> re-raises). The first clause whose class
  the exception is an instance of handles it; an exception that no clause matches stays
  pending. The \<^verbatim>\<open>else\<close> suite runs when the body completes, outside the reach of the
  clauses. The \<^verbatim>\<open>finally\<close> suite runs in every case; when it raises or returns itself
  that replaces the pending outcome.
\<close>

type_synonym handler = "cls option \<times> (exn \<Rightarrow> stmt)"

definition catches :: "cls option \<Rightarrow> exn \<Rightarrow> bool" where
  "catches c x = (case c of None \<Rightarrow> True | Some k \<Rightarrow> issubclass (exn_cls x) k)"

fun find_handler :: "exn \<Rightarrow> handler list \<Rightarrow> (exn \<Rightarrow> stmt) option" where
  "find_handler x [] = None"
| "find_handler x ((c, h) # hs) = (if catches c x then Some h else find_handler x hs)"

definition try_stmt :: "stmt \<Rightarrow> handler list \<Rightarrow> stmt \<Rightarrow> stmt \<Rightarrow> stmt" where
  "try_stmt body hs els fin s =
     (case (case body s of
              (Next, s1) \<Rightarrow> els s1
            | (Return v, s1) \<Rightarrow> (Return v, s1)
            | (Raise x, s1) \<Rightarrow>
                (case find_handler x hs of
                   None \<Rightarrow> (Raise x, s1)
                 | Some h \<Rightarrow> h x s1)) of
        (fl2, s2) \<Rightarrow>
          (case fin s2 of
             (Next, s3) \<Rightarrow> (fl2, s3)
           | (fl3, s3) \<Rightarrow> (fl3, s3)))"

definition try_except :: "stmt \<Rightarrow> handler list \<Rightarrow> stmt" where
  "try_except body hs = try_stmt body hs pass pass"

text \<open>
  Calling a function: its body runs in a fresh frame holding the parameters, and the
  caller's frame is back afterwards. A body that ends without \<^verbatim>\<open>return\<close> gives
  \<open>None\<close>.
\<close>

definition call_body :: "(string \<times> pyval) list \<Rightarrow> stmt \<Rightarrow> expr" where
  "call_body params body s =
     (case body (s\<lparr>locals := params\<rparr>) of
        (fl, s') \<Rightarrow>
          ((case fl of Next \<Rightarrow> Inr PNone | Return v \<Rightarrow> Inr v | Raise x \<Rightarrow> Inl x),
           s'\<lparr>locals := locals s\<rparr>))"

section \<open>The three versions of \<open>read_credentials\<close>\<close>

text \<open>Lines 158 to 173: \<^verbatim>\<open>try\<close> with two \<^verbatim>\<open>except\<close> clauses.\<close>

definition read_credentials_158 :: "loader \<Rightarrow> pyval \<Rightarrow> expr" where
  "read_credentials_158 sl source =
     call_body [(''source'', source)]
      (block
        [try_except
          (block
            [assign ''datasource'' (open_e (local_var ''source'')),
             assign ''config'' (yaml_safe_load sl (local_var ''datasource'')),
             assign ''user'' (subscript (local_var ''config'') ''userid''),
             assign ''password'' (subscript (local_var ''config'') ''password''),
             expr_stmt (close_e (local_var ''datasource''))])
          [(Some FileNotFoundError, \<lambda>_.
              block
                [print_stmt (const (PStr ''Password file missing'')),
                 assign ''user'' (const (PStr ''anonymous'')),
                 assign ''password'' (const PNone)]),
           (Some KeyError, \<lambda>_.
              block
                [print_stmt (const (PStr ''Expected keys not found in file'')),
                 assign ''user'' (const (PStr ''anonymous'')),
                 assign ''password'' (const PNone)])],
         return_stmt (tuple2 (local_var ''user'') (local_var ''password''))])"

text \<open>Lines 190 to 202: \<^verbatim>\<open>try\<close>, one \<^verbatim>\<open>except\<close> clause, \<^verbatim>\<open>finally\<close>.\<close>

definition read_credentials_190 :: "loader \<Rightarrow> pyval \<Rightarrow> expr" where
  "read_credentials_190 sl source =
     call_body [(''source'', source)]
      (block
        [try_stmt
          (block
            [assign ''datasource'' (open_e (local_var ''source'')),
             assign ''config'' (yaml_safe_load sl (local_var ''datasource'')),
             assign ''user'' (subscript (local_var ''config'') ''userid''),
             assign ''password'' (subscript (local_var ''config'') ''password'')])
          [(Some FileNotFoundError, \<lambda>_.
              block
                [assign ''user'' (const (PStr ''anonymous'')),
                 assign ''password'' (const PNone)])]
          pass
          (expr_stmt (close_e (local_var ''datasource''))),
         return_stmt (tuple2 (local_var ''user'') (local_var ''password''))])"

text \<open>Lines 211 to 223: \<^verbatim>\<open>try\<close>, \<^verbatim>\<open>except\<close>, \<^verbatim>\<open>else\<close>, \<^verbatim>\<open>finally\<close>.\<close>

definition read_credentials_211 :: "loader \<Rightarrow> pyval \<Rightarrow> expr" where
  "read_credentials_211 sl source =
     call_body [(''source'', source)]
      (block
        [try_stmt
          (assign ''datasource'' (open_e (local_var ''source'')))
          [(Some FileNotFoundError, \<lambda>_.
              block
                [assign ''user'' (const (PStr ''anonymous'')),
                 assign ''password'' (const PNone)])]
          (block
            [assign ''config'' (yaml_safe_load sl (local_var ''datasource'')),
             assign ''user'' (subscript (local_var ''config'') ''userid''),
             assign ''password'' (subscript (local_var ''config'') ''password'')])
          (expr_stmt (close_e (local_var ''datasource''))),
         return_stmt (tuple2 (local_var ''user'') (local_var ''password''))])"

section \<open>Calls through the module namespace\<close>

text \<open>
  A call \<^verbatim>\<open>name(arg)\<close> reads \<open>name\<close> from the module namespace when the call runs, and
  then evaluates the argument. \<open>defs\<close> lists the \<^verbatim>\<open>def\<close> statements of that name by
  source line, each with its body; the function object found selects the body that runs.
  A value that is none of these function objects is not callable.
\<close>

definition call1 :: "string \<Rightarrow> (nat \<times> (pyval \<Rightarrow> expr)) list \<Rightarrow> expr \<Rightarrow> expr" where
  "call1 name defs arg =
     bind_e (global_var name)
       (\<lambda>f. case f of
          PFunc n l \<Rightarrow>
            (case (if n = name then map_of defs l else None) of
               Some fn \<Rightarrow> bind_e arg fn
             | None \<Rightarrow> (\<lambda>s. (Inl (raised TypeError), s)))
        | _ \<Rightarrow> (\<lambda>s. (Inl (raised TypeError), s)))"

definition call0 :: "string \<Rightarrow> (nat \<times> expr) list \<Rightarrow> expr" where
  "call0 name defs =
     bind_e (global_var name)
       (\<lambda>f. case f of
          PFunc n l \<Rightarrow>
            (case (if n = name then map_of defs l else None) of
               Some fn \<Rightarrow> fn
             | None \<Rightarrow> (\<lambda>s. (Inl (raised TypeError), s)))
        | _ \<Rightarrow> (\<lambda>s. (Inl (raised TypeError), s)))"

section \<open>The call chain \<open>f1\<close>, \<open>f2\<close>, \<open>f3\<close>, \<open>f4\<close>\<close>

text \<open>
  \<^verbatim>\<open>e == k\<close> for an integer literal \<open>k\<close>: among the values here only the integer \<open>k\<close>
  is equal to it, and \<open>True\<close> to 1 and \<open>False\<close> to 0.
\<close>

definition int_eq :: "pyval \<Rightarrow> int \<Rightarrow> bool" where
  "int_eq v k =
     (case v of PInt i \<Rightarrow> i = k | PBool b \<Rightarrow> (if b then k = 1 else k = 0) | _ \<Rightarrow> False)"

definition eq_int :: "expr \<Rightarrow> int \<Rightarrow> state \<Rightarrow> (exn + bool) \<times> state" where
  "eq_int e k s =
     (case e s of (Inl x, s') \<Rightarrow> (Inl x, s') | (Inr v, s') \<Rightarrow> (Inr (int_eq v k), s'))"

definition if_stmt :: "(state \<Rightarrow> (exn + bool) \<times> state) \<Rightarrow> stmt \<Rightarrow> stmt \<Rightarrow> stmt" where
  "if_stmt b c d s =
     (case b s of
        (Inl x, s') \<Rightarrow> (Raise x, s')
      | (Inr t, s') \<Rightarrow> (if t then c s' else d s'))"

text \<open>The bomb character U+1F4A3 that the handlers print, as its UTF-8 bytes.\<close>

definition bomb :: string where
  "bomb = [CHR 0xF0, CHR 0x9F, CHR 0x92, CHR 0xA3]"

definition f4_237 :: "pyval \<Rightarrow> expr" where
  "f4_237 x =
     call_body [(''x'', x)]
      (block
        [if_stmt (eq_int (local_var ''x'') 0) (return_stmt (const PNone)) pass,
         if_stmt (eq_int (local_var ''x'') 1) (raise_stmt (raised ArithmeticError)) pass,
         if_stmt (eq_int (local_var ''x'') 2) (raise_stmt (raised SyntaxError)) pass,
         if_stmt (eq_int (local_var ''x'') 3) (raise_stmt (raised TypeError)) pass])"

definition f3_249 :: "pyval \<Rightarrow> expr" where
  "f3_249 x =
     call_body [(''x'', x)]
      (try_except
        (block
          [print_stmt (const (PStr ''F3Before'')),
           expr_stmt (call1 ''f4'' [(237, f4_237)] (local_var ''x'')),
           print_stmt (const (PStr ''F3After''))])
        [(Some ArithmeticError, \<lambda>_. print_stmt (const (PStr (''F3Except ('' @ bomb @ '')''))))])"

definition f2_259 :: "pyval \<Rightarrow> expr" where
  "f2_259 x =
     call_body [(''x'', x)]
      (try_except
        (block
          [print_stmt (const (PStr ''F2Before'')),
           expr_stmt (call1 ''f3'' [(249, f3_249)] (local_var ''x'')),
           print_stmt (const (PStr ''F2After''))])
        [(Some SyntaxError, \<lambda>_. print_stmt (const (PStr (''F2Except ('' @ bomb @ '')''))))])"

definition f1_269 :: "pyval \<Rightarrow> expr" where
  "f1_269 x =
     call_body [(''x'', x)]
      (try_except
        (block
          [print_stmt (const (PStr ''F1Before'')),
           expr_stmt (call1 ''f2'' [(259, f2_259)] (local_var ''x'')),
           print_stmt (const (PStr ''F1After''))])
        [(Some TypeError, \<lambda>_. print_stmt (const (PStr (''F1Except ('' @ bomb @ '')''))))])"

section \<open>Exception chaining: \<open>lower_function\<close> and \<open>higher_function\<close>\<close>

text \<open>\<^verbatim>\<open>raise x from c\<close>: the exception raised carries \<open>c\<close> as its cause.\<close>

definition raise_from :: "exn \<Rightarrow> exn \<Rightarrow> stmt" where
  "raise_from x c s = (Raise (Exn (exn_cls x) (exn_arg x) (Some c)), s)"

definition lower_function_407 :: expr where
  "lower_function_407 =
     call_body [] (raise_stmt (Exn ValueError ''Error in lower function!'' None))"

definition higher_function_411 :: expr where
  "higher_function_411 =
     call_body []
      (try_except
        (expr_stmt (call0 ''lower_function'' [(407, lower_function_407)]))
        [(Some ValueError, \<lambda>e. raise_from (Exn RuntimeError ''Error in higher function!'' None) e)])"

section \<open>The three versions of \<open>analysis\<close>\<close>

text \<open>\<^verbatim>\<open>type(e) == dict\<close>.\<close>

definition is_dict :: "expr \<Rightarrow> state \<Rightarrow> (exn + bool) \<times> state" where
  "is_dict e s =
     (case e s of
        (Inl x, s') \<Rightarrow> (Inl x, s')
      | (Inr v, s') \<Rightarrow> (Inr (case v of PDict d \<Rightarrow> True | _ \<Rightarrow> False), s'))"

text \<open>Lines 317 to 324: the test on the type of the argument.\<close>

definition analysis_317 :: "loader \<Rightarrow> pyval \<Rightarrow> expr" where
  "analysis_317 sl source =
     call_body [(''source'', source)]
      (block
        [if_stmt (is_dict (local_var ''source''))
          (assign ''name'' (subscript (local_var ''source'') ''modelname''))
          (block
            [assign ''content'' (open_e (local_var ''source'')),
             assign ''source'' (yaml_safe_load sl (local_var ''content'')),
             assign ''name'' (subscript (local_var ''source'') ''modelname'')]),
         print_stmt (local_var ''name'')])"

text \<open>Lines 348 to 355: \<^verbatim>\<open>try\<close> the subscript, open the file on \<open>TypeError\<close>.\<close>

definition analysis_348 :: "loader \<Rightarrow> pyval \<Rightarrow> expr" where
  "analysis_348 sl source =
     call_body [(''source'', source)]
      (block
        [try_except
          (assign ''name'' (subscript (local_var ''source'') ''modelname''))
          [(Some TypeError, \<lambda>_.
              block
                [assign ''content'' (open_e (local_var ''source'')),
                 assign ''source'' (yaml_safe_load sl (local_var ''content'')),
                 assign ''name'' (subscript (local_var ''source'') ''modelname'')])],
         print_stmt (local_var ''name'')])"

text \<open>Lines 366 to 380: the final version, which loads the string itself on \<open>IOError\<close>.\<close>

definition analysis_366 :: "loader \<Rightarrow> pyval \<Rightarrow> expr" where
  "analysis_366 sl source =
     call_body [(''source'', source)]
      (block
        [try_except
          (assign ''name'' (subscript (local_var ''source'') ''modelname''))
          [(Some TypeError, \<lambda>_.
              try_except
                (block
                  [assign ''content'' (open_e (local_var ''source'')),
                   assign ''source'' (yaml_safe_load sl (local_var ''content'')),
                   assign ''name'' (subscript (local_var ''source'') ''modelname'')])
                [(Some IOError, \<lambda>_.
                    block
                      [assign ''source'' (yaml_safe_load sl (local_var ''source'')),
                       assign ''name'' (subscript (local_var ''source'') ''modelname'')])])],
         print_stmt (local_var ''name'')])"

section \<open>The list comprehensions and their loops\<close>

text \<open>
  Line 25 and line 50 of \<^verbatim>\<open>037comprehensions.ipynb.py\<close>, with the bound of the range as
  a parameter: \<^verbatim>\<open>[2 ** x for x in range(n)]\<close> and
  \<^verbatim>\<open>[2 ** x for x in range(n) if x % 3 == 0]\<close>. Python's integers are unbounded.
\<close>

definition py_range :: "nat \<Rightarrow> int list" where
  "py_range n = map int [0..<n]"

definition comprehension_25 :: "nat \<Rightarrow> int list" where
  "comprehension_25 n = [2 ^ nat x. x \<leftarrow> py_range n]"

definition comprehension_50 :: "nat \<Rightarrow> int list" where
  "comprehension_50 n = [2 ^ nat x. x \<leftarrow> py_range n, x mod 3 = 0]"

text \<open>
  Lines 31 to 35 and lines 66 to 70: \<open>result\<close> starts empty and the loop body appends to
  it, once for every element of the range in turn.
\<close>

fun for_loop :: "(int \<Rightarrow> int list \<Rightarrow> int list) \<Rightarrow> int list \<Rightarrow> int list \<Rightarrow> int list" where
  "for_loop body [] result = result"
| "for_loop body (x # xs) result = for_loop body xs (body x result)"

definition append :: "int list \<Rightarrow> int \<Rightarrow> int list" where
  "append result v = result @ [v]"

definition loop_31 :: "nat \<Rightarrow> int list" where
  "loop_31 n = for_loop (\<lambda>x result. append result (2 ^ nat x)) (py_range n) []"

definition loop_66 :: "nat \<Rightarrow> int list" where
  "loop_66 n =
     for_loop (\<lambda>x result. if x mod 3 = 0 then append result (2 ^ nat x) else result)
       (py_range n) []"

section \<open>The fixture files\<close>

text \<open>
  The texts that the cells at lines 145 to 151 and 331 to 332 write, and the string of
  line 383.
\<close>

definition nl :: string where
  "nl = [CHR 0x0A]"

definition datasource2_text :: string where
  "datasource2_text = ''userid: eidle'' @ nl @ ''password: secret'' @ nl"

definition datasource3_text :: string where
  "datasource3_text = ''user: eidle'' @ nl @ ''password: secret'' @ nl"

definition example_text :: string where
  "example_text = ''modelname: brilliant'' @ nl"

text \<open>
  What \<^verbatim>\<open>yaml.safe_load\<close> gives on the texts that the notebook loads: each is a block
  mapping of plain scalars. No other text is loaded by the notebook; this loader rejects
  them.
\<close>

definition fixture_load :: loader where
  "fixture_load t =
     (if t = datasource2_text
      then Inr (PDict [(''userid'', PStr ''eidle''), (''password'', PStr ''secret'')])
      else if t = datasource3_text
      then Inr (PDict [(''user'', PStr ''eidle''), (''password'', PStr ''secret'')])
      else if t = example_text
      then Inr (PDict [(''modelname'', PStr ''brilliant'')])
      else if t = ''modelname: Amazing''
      then Inr (PDict [(''modelname'', PStr ''Amazing'')])
      else Inl (raised YAMLError))"

text \<open>
  A state in which \<open>yaml\<close> is imported, the functions that other functions call are
  defined, and the three fixture files are in the directory; \<^verbatim>\<open>datasource.yaml\<close> is not.
\<close>

definition example_state :: state where
  "example_state =
     \<lparr>globals =
        [(''yaml'', PModule ''yaml''),
         (''f4'', PFunc ''f4'' 237), (''f3'', PFunc ''f3'' 249), (''f2'', PFunc ''f2'' 259),
         (''lower_function'', PFunc ''lower_function'' 407)],
      locals = [],
      files =
        [(''datasource2.yaml'', datasource2_text),
         (''datasource3.yaml'', datasource3_text),
         (''example.yaml'', example_text)],
      handles = [],
      out = [],
      shown = []\<rparr>"

section \<open>Cells\<close>

text \<open>
  A code cell is a statement run at module level, where names are bound in the module
  namespace. When the last statement of a cell is an expression, its value is displayed
  unless it is \<open>None\<close>.
\<close>

definition display :: "expr \<Rightarrow> stmt" where
  "display e s =
     (case e s of
        (Inl x, s') \<Rightarrow> (Raise x, s')
      | (Inr v, s') \<Rightarrow> (Next, if v = PNone then s' else s'\<lparr>shown := shown s' @ [v]\<rparr>))"

text \<open>\<^verbatim>\<open>import m\<close>, for the modules \<open>inspect\<close> and \<open>yaml\<close>, which are installed.\<close>

definition import_module :: "string \<Rightarrow> stmt" where
  "import_module m = gassign m (const (PModule m))"

definition def_stmt :: "string \<Rightarrow> nat \<Rightarrow> stmt" where
  "def_stmt name line = gassign name (const (PFunc name line))"

text \<open>
  \<^verbatim>\<open>a / b\<close> on integers. The quotient is a float in Python; it is kept here as the
  rational it approximates.
\<close>

definition truediv :: "int \<Rightarrow> int \<Rightarrow> exn + rat" where
  "truediv a b = (if b = 0 then Inl (raised ZeroDivisionError) else Inr (of_int a / of_int b))"

text \<open>\<^verbatim>\<open>inspect.getmro(c)\<close>: the class and its bases, for a class.\<close>

definition getmro :: "expr \<Rightarrow> expr" where
  "getmro e =
     bind_e (global_var ''inspect'')
       (\<lambda>m. if m = PModule ''inspect''
            then bind_e e
              (\<lambda>v s. (case v of
                         PClass c \<Rightarrow> Inr (PTuple (map PClass (c # bases c)))
                       | _ \<Rightarrow> Inl (raised AttributeError), s))
            else (\<lambda>s. (Inl (raised AttributeError), s)))"

text \<open>
  What a \<^verbatim>\<open>for\<close> loop iterates over: the elements of a list or tuple, the characters
  of a string, the keys of a dictionary, the lines of an open file. Nothing else among
  the values here is iterable.
\<close>

fun text_lines :: "string \<Rightarrow> string \<Rightarrow> string list" where
  "text_lines acc [] = (if acc = [] then [] else [acc])"
| "text_lines acc (c # cs) =
     (if c = CHR 0x0A then (acc @ [c]) # text_lines [] cs else text_lines (acc @ [c]) cs)"

definition py_iter :: "pyval \<Rightarrow> state \<Rightarrow> exn + pyval list" where
  "py_iter v s =
     (case v of
        PList xs \<Rightarrow> Inr xs
      | PTuple xs \<Rightarrow> Inr xs
      | PStr t \<Rightarrow> Inr (map (\<lambda>c. PStr [c]) t)
      | PDict d \<Rightarrow> Inr (map (\<lambda>kv. PStr (fst kv)) d)
      | PFile h \<Rightarrow>
          (if h < length (handles s) \<and> f_open (handles s ! h)
           then Inr (map PStr (text_lines [] (f_text (handles s ! h))))
           else Inl (raised ValueError))
      | _ \<Rightarrow> Inl (raised TypeError))"

fun for_body :: "string \<Rightarrow> stmt \<Rightarrow> pyval list \<Rightarrow> stmt" where
  "for_body n c [] s = (Next, s)"
| "for_body n c (v # vs) s =
     (case c (s\<lparr>globals := AList.update n v (globals s)\<rparr>) of
        (Next, s') \<Rightarrow> for_body n c vs s'
      | (fl, s') \<Rightarrow> (fl, s'))"

definition for_stmt :: "string \<Rightarrow> expr \<Rightarrow> stmt \<Rightarrow> stmt" where
  "for_stmt n e c s =
     (case e s of
        (Inl x, s') \<Rightarrow> (Raise x, s')
      | (Inr v, s') \<Rightarrow>
          (case py_iter v s' of
             Inl x \<Rightarrow> (Raise x, s')
           | Inr vs \<Rightarrow> for_body n c vs s'))"

text \<open>
  \<^verbatim>\<open>raise(C(arg))\<close> for a class read from an expression: the instance is raised when
  the class is an exception class.
\<close>

definition raise_instance :: "expr \<Rightarrow> string \<Rightarrow> stmt" where
  "raise_instance e arg s =
     (case e s of
        (Inl x, s') \<Rightarrow> (Raise x, s')
      | (Inr v, s') \<Rightarrow>
          (case v of
             PClass c \<Rightarrow>
               (if issubclass c BaseException then (Raise (Exn c arg None), s')
                else (Raise (raised TypeError), s'))
           | _ \<Rightarrow> (Raise (raised TypeError), s')))"

text \<open>
  \<^verbatim>\<open>with open(p, 'w') as n:\<close> followed by \<^verbatim>\<open>n.write(c)\<close> for each chunk \<open>c\<close>: the file
  \<open>p\<close> is created or emptied, the chunks are written to it in turn, and the file object,
  bound to \<open>n\<close>, is closed when the block ends.
\<close>

definition with_open_w :: "string \<Rightarrow> string \<Rightarrow> string list \<Rightarrow> stmt" where
  "with_open_w p n chunks s =
     (Next,
      s\<lparr>globals := AList.update n (PFile (length (handles s))) (globals s),
        files := AList.update p (concat chunks) (files s),
        handles := handles s @ [\<lparr>f_path = p, f_text = concat chunks, f_open = False\<rparr>]\<rparr>)"

section \<open>The cells of the exceptions notebook\<close>

text \<open>Each cell is named by the line of \<^verbatim>\<open>040Exceptions.ipynb.py\<close> where its code starts.\<close>

definition cell_25 :: stmt where
  "cell_25 s = (case truediv 1 0 of Inl x \<Rightarrow> (Raise x, s) | Inr q \<Rightarrow> (Next, s))"

definition cell_34 :: stmt where
  "cell_34 =
     block
       [import_module ''inspect'',
        display (getmro (const (PClass ZeroDivisionError)))]"

definition cell_46 :: stmt where
  "cell_46 =
     block
       [gassign ''x'' (const (PInt 1)),
        for_stmt ''y'' (global_var ''x'') (print_stmt (global_var ''y''))]"

definition cell_52 :: stmt where
  "cell_52 = display (getmro (const (PClass TypeError)))"

definition cell_65 :: stmt where
  "cell_65 =
     block
       [gassign ''MyCustomErrorType'' (const (PClass MyCustomErrorType_65)),
        raise_instance (global_var ''MyCustomErrorType'') ''Problem'']"

definition cell_81 :: stmt where
  "cell_81 =
     block
       [gassign ''MyCustomErrorType'' (const (PClass MyCustomErrorType_81)),
        raise_instance (global_var ''MyCustomErrorType'') ''404'']"

definition cell_100 :: "loader \<Rightarrow> stmt" where
  "cell_100 sl =
     block
       [import_module ''yaml'',
        try_except
          (block
            [gassign ''config''
               (yaml_safe_load sl (open_e (const (PStr ''datasource.yaml'')))),
             gassign ''user'' (subscript (global_var ''config'') ''userid''),
             gassign ''password'' (subscript (global_var ''config'') ''password'')])
          [(Some FileNotFoundError, \<lambda>_.
              block
                [print_stmt (const (PStr ''No password file found, using anonymous user.'')),
                 gassign ''user'' (const (PStr ''anonymous'')),
                 gassign ''password'' (const PNone)])],
        print_stmt (global_var ''user'')]"

definition cell_124 :: "loader \<Rightarrow> stmt" where
  "cell_124 sl =
     block
       [try_except
          (block
            [gassign ''config''
               (yaml_call ''lod'' sl (open_e (const (PStr ''datasource.yaml'')))),
             gassign ''user'' (subscript (global_var ''config'') ''userid''),
             gassign ''password'' (subscript (global_var ''config'') ''password'')])
          [(None, \<lambda>_.
              block
                [gassign ''user'' (const (PStr ''anonymous'')),
                 gassign ''password'' (const PNone)])],
        print_stmt (global_var ''user'')]"

definition cell_145 :: stmt where
  "cell_145 =
     block
       [with_open_w ''datasource2.yaml'' ''outfile''
          [''userid: eidle'' @ nl, ''password: secret'' @ nl],
        with_open_w ''datasource3.yaml'' ''outfile''
          [''user: eidle'' @ nl, ''password: secret'' @ nl]]"

definition cell_158 :: stmt where
  "cell_158 = def_stmt ''read_credentials'' 158"

definition read_credentials_defs :: "loader \<Rightarrow> (nat \<times> (pyval \<Rightarrow> expr)) list" where
  "read_credentials_defs sl =
     [(158, read_credentials_158 sl), (190, read_credentials_190 sl),
      (211, read_credentials_211 sl)]"

definition cell_177 :: "loader \<Rightarrow> stmt" where
  "cell_177 sl =
     print_stmt
       (call1 ''read_credentials'' (read_credentials_defs sl) (const (PStr ''datasource2.yaml'')))"

definition cell_180 :: "loader \<Rightarrow> stmt" where
  "cell_180 sl =
     print_stmt
       (call1 ''read_credentials'' (read_credentials_defs sl) (const (PStr ''datasource.yaml'')))"

definition cell_183 :: "loader \<Rightarrow> stmt" where
  "cell_183 sl =
     print_stmt
       (call1 ''read_credentials'' (read_credentials_defs sl) (const (PStr ''datasource3.yaml'')))"

definition cell_190 :: stmt where
  "cell_190 = def_stmt ''read_credentials'' 190"

definition cell_211 :: stmt where
  "cell_211 = def_stmt ''read_credentials'' 211"

definition cell_237 :: stmt where
  "cell_237 = def_stmt ''f4'' 237"

definition cell_249 :: stmt where
  "cell_249 = def_stmt ''f3'' 249"

definition cell_259 :: stmt where
  "cell_259 = def_stmt ''f2'' 259"

definition cell_269 :: stmt where
  "cell_269 = def_stmt ''f1'' 269"

definition cell_279 :: stmt where
  "cell_279 = display (call1 ''f1'' [(269, f1_269)] (const (PInt 0)))"

definition cell_282 :: stmt where
  "cell_282 = display (call1 ''f1'' [(269, f1_269)] (const (PInt 1)))"

definition cell_285 :: stmt where
  "cell_285 = display (call1 ''f1'' [(269, f1_269)] (const (PInt 2)))"

definition cell_288 :: stmt where
  "cell_288 = display (call1 ''f1'' [(269, f1_269)] (const (PInt 3)))"

definition analysis_defs :: "loader \<Rightarrow> (nat \<times> (pyval \<Rightarrow> expr)) list" where
  "analysis_defs sl =
     [(317, analysis_317 sl), (348, analysis_348 sl), (366, analysis_366 sl)]"

definition cell_314 :: stmt where
  "cell_314 = block [import_module ''yaml'', def_stmt ''analysis'' 317]"

definition cell_328 :: "loader \<Rightarrow> stmt" where
  "cell_328 sl =
     display
       (call1 ''analysis'' (analysis_defs sl) (const (PDict [(''modelname'', PStr ''Super'')])))"

definition cell_331 :: stmt where
  "cell_331 = with_open_w ''example.yaml'' ''outfile'' [''modelname: brilliant'' @ nl]"

definition cell_335 :: "loader \<Rightarrow> stmt" where
  "cell_335 sl =
     display (call1 ''analysis'' (analysis_defs sl) (const (PStr ''example.yaml'')))"

definition cell_348 :: "loader \<Rightarrow> stmt" where
  "cell_348 sl =
     block
       [def_stmt ''analysis'' 348,
        display (call1 ''analysis'' (analysis_defs sl) (const (PStr ''example.yaml'')))]"

definition cell_366 :: "loader \<Rightarrow> stmt" where
  "cell_366 sl =
     block
       [def_stmt ''analysis'' 366,
        display (call1 ''analysis'' (analysis_defs sl) (const (PStr ''modelname: Amazing'')))]"

definition cell_395 :: stmt where
  "cell_395 = try_except pass [(None, \<lambda>e. raise_stmt e)]"

definition cell_407 :: stmt where
  "cell_407 =
     block
       [def_stmt ''lower_function'' 407,
        def_stmt ''higher_function'' 411,
        display (call0 ''higher_function'' [(411, higher_function_411)])]"

definition exceptions_notebook :: "loader \<Rightarrow> stmt list" where
  "exceptions_notebook sl =
     [cell_25, cell_34, cell_46, cell_52, cell_65, cell_81, cell_100 sl, cell_124 sl,
      cell_145, cell_158, cell_177 sl, cell_180 sl, cell_183 sl, cell_190, cell_211,
      cell_237, cell_249, cell_259, cell_269, cell_279, cell_282, cell_285, cell_288,
      cell_314, cell_328 sl, cell_331, cell_335 sl, cell_348 sl, cell_366 sl, cell_395,
      cell_407]"


section \<open>The cells of the comprehensions notebook\<close>

text \<open>
  Each cell is named by the line of \<^verbatim>\<open>037comprehensions.ipynb.py\<close> where its code starts.
  The operands of these cells are literals and ranges, so each expression is written on
  the integers, strings and lists it works on, and its value is then displayed.
\<close>

text \<open>\<^verbatim>\<open>str(i)\<close>: the decimal digits of an integer.\<close>

definition digit_char :: "nat \<Rightarrow> char" where
  "digit_char d = char_of (48 + d)"

fun digits :: "nat \<Rightarrow> string" where
  "digits n = (if n < 10 then [digit_char n] else digits (n div 10) @ [digit_char (n mod 10)])"

declare digits.simps [simp del]

definition str_int :: "int \<Rightarrow> string" where
  "str_int i = (if i < 0 then CHR ''-'' # digits (nat (- i)) else digits (nat i))"

text \<open>\<^verbatim>\<open>c.lower()\<close> for one character, on the ASCII letters.\<close>

definition lower_char :: "char \<Rightarrow> char" where
  "lower_char c =
     (let n = (of_char c :: nat) in if 65 \<le> n \<and> n \<le> 90 then char_of (n + 32) else c)"

text \<open>\<^verbatim>\<open>max(xs)\<close>: an empty list has no maximum.\<close>

definition py_max :: "int list \<Rightarrow> exn + int" where
  "py_max xs = (case xs of [] \<Rightarrow> Inl (raised ValueError) | y # ys \<Rightarrow> Inr (fold max ys y))"

text \<open>A dictionary built from its items in turn: a later item replaces an equal key.\<close>

definition dict_of :: "(string \<times> pyval) list \<Rightarrow> pyval" where
  "dict_of kvs = PDict (fold (\<lambda>kv d. AList.update (fst kv) (snd kv) d) kvs [])"

definition int_list :: "int list \<Rightarrow> pyval" where
  "int_list xs = PList (map PInt xs)"

definition str_list :: "string list \<Rightarrow> pyval" where
  "str_list xs = PList (map PStr xs)"

definition comp_cell_25 :: stmt where
  "comp_cell_25 = display (const (int_list (comprehension_25 10)))"

text \<open>
  Lines 31 to 35 and 66 to 70: after the loop \<open>result\<close> is bound to the list built and
  \<open>x\<close> to the last element of the range.
\<close>

definition comp_cell_31 :: stmt where
  "comp_cell_31 =
     block
       [gassign ''result'' (const (int_list (loop_31 10))),
        gassign ''x'' (const (PInt (last (py_range 10)))),
        display (global_var ''result'')]"

definition comp_cell_41 :: stmt where
  "comp_cell_41 =
     display (const (int_list [int (length (str_int (2 ^ nat x))). x \<leftarrow> py_range 10]))"

definition comp_cell_50 :: stmt where
  "comp_cell_50 = display (const (int_list (comprehension_50 30)))"

definition comp_cell_56 :: stmt where
  "comp_cell_56 =
     display
       (const (PStr (concat
          [[letter]. letter \<leftarrow> ''Eric Idle'', \<not> List.member ''aeiou'' (lower_char letter)])))"

definition comp_cell_66 :: stmt where
  "comp_cell_66 =
     block
       [gassign ''result'' (const (int_list (loop_66 30))),
        gassign ''x'' (const (PInt (last (py_range 30)))),
        display (global_var ''result'')]"

definition comp_cell_91 :: stmt where
  "comp_cell_91 = display (const (int_list [x - y. x \<leftarrow> py_range 4, y \<leftarrow> py_range 4]))"

definition comp_cell_97 :: stmt where
  "comp_cell_97 =
     display (const (int_list [x - y. x \<leftarrow> py_range 4, y \<leftarrow> py_range 4, x \<ge> y]))"

definition comp_cell_103 :: stmt where
  "comp_cell_103 =
     display (const (PList [int_list [x - y. x \<leftarrow> py_range 4]. y \<leftarrow> py_range 4]))"

definition comp_cell_112 :: stmt where
  "comp_cell_112 =
     display (const (str_list [x @ y. x \<leftarrow> [''a'', ''b'', ''c''], y \<leftarrow> [''1'', ''2'', ''3'']]))"

definition comp_cell_115 :: stmt where
  "comp_cell_115 =
     display
       (const (PList [str_list [x @ y. x \<leftarrow> [''a'', ''b'', ''c'']]. y \<leftarrow> [''1'', ''2'', ''3'']]))"

definition comp_cell_124 :: stmt where
  "comp_cell_124 =
     display
       (const (dict_of [(concat (replicate 3 (str_int x)), PInt x). x \<leftarrow> py_range 3]))"

definition comp_cell_142 :: stmt where
  "comp_cell_142 = display (const (PBool (list_ex (\<lambda>b. b) [True, False, True])))"

definition comp_cell_145 :: stmt where
  "comp_cell_145 = display (const (PBool (list_all (\<lambda>b. b) [True, False, True])))"

definition comp_cell_148 :: stmt where
  "comp_cell_148 =
     display (\<lambda>s. (case py_max [1, 2, 3] of Inl x \<Rightarrow> Inl x | Inr m \<Rightarrow> Inr (PInt m), s))"

definition comp_cell_151 :: stmt where
  "comp_cell_151 = display (const (PInt (sum_list [1, 2, 3])))"

definition comp_cell_157 :: stmt where
  "comp_cell_157 = display (const (str_list [str_int x. x \<leftarrow> py_range 10]))"

definition comp_cell_160 :: stmt where
  "comp_cell_160 = display (const (str_list (map str_int (py_range 10))))"

definition comp_cell_176 :: stmt where
  "comp_cell_176 =
     display
       (const (dict_of
          [(''bedroom'', PInt 1), (''garden'', PInt 3), (''kitchen'', PInt 1),
           (''living'', PInt 2)]))"

definition comp_cell_186 :: stmt where
  "comp_cell_186 = display (const (dict_of [(''garden'', PInt 1), (''living'', PInt 1)]))"

definition comprehensions_notebook :: "stmt list" where
  "comprehensions_notebook =
     [comp_cell_25, comp_cell_31, comp_cell_41, comp_cell_50, comp_cell_56, comp_cell_66,
      comp_cell_91, comp_cell_97, comp_cell_103, comp_cell_112, comp_cell_115,
      comp_cell_124, comp_cell_142, comp_cell_145, comp_cell_148, comp_cell_151,
      comp_cell_157, comp_cell_160, comp_cell_176, comp_cell_186]"

section \<open>Running a notebook\<close>

text \<open>A new kernel in a working directory that holds none of the fixture files.\<close>

definition initial_state :: state where
  "initial_state = \<lparr>globals = [], locals = [], files = [], handles = [], out = [], shown = []\<rparr>"

text \<open>
  The cells run one after the other, each on the state that the one before left,
  whether or not that one ended in an exception. \<open>run_cells\<close> gives how each cell ended,
  \<open>state_after\<close> the state that the cells leave.
\<close>

fun run_cells :: "stmt list \<Rightarrow> state \<Rightarrow> flow list" where
  "run_cells [] s = []"
| "run_cells (c # cs) s = (case c s of (fl, s') \<Rightarrow> fl # run_cells cs s')"

fun state_after :: "stmt list \<Rightarrow> state \<Rightarrow> state" where
  "state_after [] s = s"
| "state_after (c # cs) s = state_after cs (snd (c s))"

text \<open>
  What is seen of a cell's run: how it ended, what has been printed and what displayed.
  A cell run in isolation starts from an empty module namespace, in the same directory.
\<close>

definition observed :: "stmt \<Rightarrow> state \<Rightarrow> flow \<times> pyval list \<times> pyval list" where
  "observed c s = (case c s of (fl, s') \<Rightarrow> (fl, out s', shown s'))"

definition isolated :: "state \<Rightarrow> state" where
  "isolated s = s\<lparr>globals := []\<rparr>"

fun independent_cells :: "stmt list \<Rightarrow> state \<Rightarrow> bool list" where
  "independent_cells [] s = []"
| "independent_cells (c # cs) s =
     (observed c (isolated s) = observed c s) # independent_cells cs (snd (c s))"

fun isolated_flows :: "stmt list \<Rightarrow> state \<Rightarrow> flow list" where
  "isolated_flows [] s = []"
| "isolated_flows (c # cs) s = fst (c (isolated s)) # isolated_flows cs (snd (c s))"

definition loads_fixtures :: "loader \<Rightarrow> bool" where
  "loads_fixtures sl \<longleftrightarrow>
     sl datasource2_text
       = Inr (PDict [(''userid'', PStr ''eidle''), (''password'', PStr ''secret'')])
     \<and> sl datasource3_text
       = Inr (PDict [(''user'', PStr ''eidle''), (''password'', PStr ''secret'')])
     \<and> sl example_text = Inr (PDict [(''modelname'', PStr ''brilliant'')])
     \<and> sl ''modelname: Amazing'' = Inr (PDict [(''modelname'', PStr ''Amazing'')])"


section \<open>Evaluation rules\<close>

lemmas py_defs =
  raised_def const_def bind_e_def local_var_def global_var_def getitem_def subscript_def
  py_open_def open_e_def py_close_def close_e_def load_value_def yaml_attr_def
  yaml_call_def yaml_safe_load_def tuple2_def pass_def assign_def gassign_def expr_stmt_def
  print_stmt_def return_stmt_def raise_stmt_def if_stmt_def catches_def issubclass_def
  try_stmt_def try_except_def call_body_def call1_def call0_def eq_int_def is_dict_def
  raise_from_def

lemmas fixture_defs =
  example_state_def fixture_load_def datasource2_text_def datasource3_text_def
  example_text_def nl_def

section \<open>What each version of \<open>read_credentials\<close> does\<close>

text \<open>
  In the lemmas below the file object that the call creates is the last one of the final
  state; \<open>f_open\<close> tells whether it was closed before the function returned.
\<close>

lemma rc158_both_keys:
  assumes "map_of (globals s) ''yaml'' = Some (PModule ''yaml'')"
    and "map_of (files s) p = Some t" and "sl t = Inr (PDict d)"
    and "map_of d ''userid'' = Some u" and "map_of d ''password'' = Some pw"
  shows "read_credentials_158 sl (PStr p) s =
     (Inr (PTuple [u, pw]),
      s\<lparr>handles := handles s @ [\<lparr>f_path = p, f_text = t, f_open = False\<rparr>]\<rparr>)"
  using assms unfolding read_credentials_158_def
  by (simp add: py_defs nth_append)

lemma rc158_missing_file:
  assumes "map_of (files s) p = None"
  shows "read_credentials_158 sl (PStr p) s =
     (Inr (PTuple [PStr ''anonymous'', PNone]),
      s\<lparr>out := out s @ [PStr ''Password file missing'']\<rparr>)"
  using assms unfolding read_credentials_158_def
  by (simp add: py_defs)

lemma rc158_missing_key:
  assumes "map_of (globals s) ''yaml'' = Some (PModule ''yaml'')"
    and "map_of (files s) p = Some t" and "sl t = Inr (PDict d)"
    and "map_of d ''userid'' = None \<or> map_of d ''password'' = None"
  shows "read_credentials_158 sl (PStr p) s =
     (Inr (PTuple [PStr ''anonymous'', PNone]),
      s\<lparr>handles := handles s @ [\<lparr>f_path = p, f_text = t, f_open = True\<rparr>],
        out := out s @ [PStr ''Expected keys not found in file'']\<rparr>)"
  using assms unfolding read_credentials_158_def
  by (auto simp add: py_defs nth_append split: option.splits)

lemma rc190_both_keys:
  assumes "map_of (globals s) ''yaml'' = Some (PModule ''yaml'')"
    and "map_of (files s) p = Some t" and "sl t = Inr (PDict d)"
    and "map_of d ''userid'' = Some u" and "map_of d ''password'' = Some pw"
  shows "read_credentials_190 sl (PStr p) s =
     (Inr (PTuple [u, pw]),
      s\<lparr>handles := handles s @ [\<lparr>f_path = p, f_text = t, f_open = False\<rparr>]\<rparr>)"
  using assms unfolding read_credentials_190_def
  by (simp add: py_defs nth_append)

lemma rc190_missing_key:
  assumes "map_of (globals s) ''yaml'' = Some (PModule ''yaml'')"
    and "map_of (files s) p = Some t" and "sl t = Inr (PDict d)"
    and "map_of d ''userid'' = None \<or> map_of d ''password'' = None"
  shows "read_credentials_190 sl (PStr p) s =
     (Inl (raised KeyError),
      s\<lparr>handles := handles s @ [\<lparr>f_path = p, f_text = t, f_open = False\<rparr>]\<rparr>)"
  using assms unfolding read_credentials_190_def
  by (auto simp add: py_defs nth_append split: option.splits)

lemma rc211_both_keys:
  assumes "map_of (globals s) ''yaml'' = Some (PModule ''yaml'')"
    and "map_of (files s) p = Some t" and "sl t = Inr (PDict d)"
    and "map_of d ''userid'' = Some u" and "map_of d ''password'' = Some pw"
  shows "read_credentials_211 sl (PStr p) s =
     (Inr (PTuple [u, pw]),
      s\<lparr>handles := handles s @ [\<lparr>f_path = p, f_text = t, f_open = False\<rparr>]\<rparr>)"
  using assms unfolding read_credentials_211_def
  by (simp add: py_defs nth_append)

lemma rc211_missing_key:
  assumes "map_of (globals s) ''yaml'' = Some (PModule ''yaml'')"
    and "map_of (files s) p = Some t" and "sl t = Inr (PDict d)"
    and "map_of d ''userid'' = None \<or> map_of d ''password'' = None"
  shows "read_credentials_211 sl (PStr p) s =
     (Inl (raised KeyError),
      s\<lparr>handles := handles s @ [\<lparr>f_path = p, f_text = t, f_open = False\<rparr>]\<rparr>)"
  using assms unfolding read_credentials_211_def
  by (auto simp add: py_defs nth_append split: option.splits)

lemma rc211_missing_file:
  assumes "map_of (files s) p = None"
  shows "read_credentials_211 sl (PStr p) s = (Inl (raised UnboundLocalError), s)"
  using assms unfolding read_credentials_211_def
  by (simp add: py_defs)

lemma example_yaml_bound:
  "map_of (globals example_state) ''yaml'' = Some (PModule ''yaml'')"
  by (simp add: example_state_def)

lemma example_datasource2:
  "map_of (files example_state) ''datasource2.yaml'' = Some datasource2_text"
  "fixture_load datasource2_text =
     Inr (PDict [(''userid'', PStr ''eidle''), (''password'', PStr ''secret'')])"
  by (simp_all add: fixture_defs)

lemma example_datasource3:
  "map_of (files example_state) ''datasource3.yaml'' = Some datasource3_text"
  "fixture_load datasource3_text =
     Inr (PDict [(''user'', PStr ''eidle''), (''password'', PStr ''secret'')])"
  by (simp_all add: fixture_defs)

lemma example_datasource_missing:
  "map_of (files example_state) ''datasource.yaml'' = None"
  by (simp add: example_state_def)

text \<open>
  C2: the first version of \<open>read_credentials\<close> returns the pair of the values under
  \<open>userid\<close> and \<open>password\<close> when the file exists and holds a mapping with both keys; it
  returns \<open>('anonymous', None)\<close> when the file does not exist, and when the file holds a
  mapping that lacks one of the two keys.
\<close>

theorem read_credentials_158_returns:
  assumes "map_of (globals s) ''yaml'' = Some (PModule ''yaml'')"
  shows
    "(map_of (files s) p = Some t \<and> sl t = Inr (PDict d)
        \<and> map_of d ''userid'' = Some u \<and> map_of d ''password'' = Some pw
      \<longrightarrow> fst (read_credentials_158 sl (PStr p) s) = Inr (PTuple [u, pw]))
     \<and> (map_of (files s) p = None
      \<longrightarrow> fst (read_credentials_158 sl (PStr p) s) = Inr (PTuple [PStr ''anonymous'', PNone]))
     \<and> (map_of (files s) p = Some t \<and> sl t = Inr (PDict d)
        \<and> (map_of d ''userid'' = None \<or> map_of d ''password'' = None)
      \<longrightarrow> fst (read_credentials_158 sl (PStr p) s) = Inr (PTuple [PStr ''anonymous'', PNone]))"
proof (intro conjI impI)
  assume "map_of (files s) p = Some t \<and> sl t = Inr (PDict d)
        \<and> map_of d ''userid'' = Some u \<and> map_of d ''password'' = Some pw"
  then show "fst (read_credentials_158 sl (PStr p) s) = Inr (PTuple [u, pw])"
    using assms by (simp add: rc158_both_keys)
next
  assume "map_of (files s) p = None"
  then show "fst (read_credentials_158 sl (PStr p) s) = Inr (PTuple [PStr ''anonymous'', PNone])"
    by (simp add: rc158_missing_file)
next
  assume "map_of (files s) p = Some t \<and> sl t = Inr (PDict d)
        \<and> (map_of d ''userid'' = None \<or> map_of d ''password'' = None)"
  then show "fst (read_credentials_158 sl (PStr p) s) = Inr (PTuple [PStr ''anonymous'', PNone])"
    using assms by (simp add: rc158_missing_key)
qed

theorem read_credentials_158_returns_witness:
  "fst (read_credentials_158 fixture_load (PStr ''datasource2.yaml'') example_state)
     = Inr (PTuple [PStr ''eidle'', PStr ''secret''])
   \<and> fst (read_credentials_158 fixture_load (PStr ''datasource.yaml'') example_state)
     = Inr (PTuple [PStr ''anonymous'', PNone])
   \<and> fst (read_credentials_158 fixture_load (PStr ''datasource3.yaml'') example_state)
     = Inr (PTuple [PStr ''anonymous'', PNone])"
  using
    read_credentials_158_returns [OF example_yaml_bound,
      of "''datasource2.yaml''" datasource2_text fixture_load
         "[(''userid'', PStr ''eidle''), (''password'', PStr ''secret'')]"
         "PStr ''eidle''" "PStr ''secret''"]
    read_credentials_158_returns [OF example_yaml_bound,
      of "''datasource.yaml''" datasource2_text fixture_load "[]" PNone PNone]
    read_credentials_158_returns [OF example_yaml_bound,
      of "''datasource3.yaml''" datasource3_text fixture_load
         "[(''user'', PStr ''eidle''), (''password'', PStr ''secret'')]" PNone PNone]
  by (simp add: example_datasource2 example_datasource3 example_datasource_missing)

text \<open>
  C10: in the first version, when the file exists but its mapping lacks \<open>userid\<close> or
  \<open>password\<close>, the \<open>KeyError\<close> handler returns \<open>('anonymous', None)\<close> and the file object
  that the call opened is still open on return: \<^verbatim>\<open>datasource.close()\<close> has not run.
\<close>

theorem read_credentials_158_leaves_file_open:
  assumes "map_of (globals s) ''yaml'' = Some (PModule ''yaml'')"
    and "map_of (files s) p = Some t" and "sl t = Inr (PDict d)"
    and "map_of d ''userid'' = None \<or> map_of d ''password'' = None"
  shows "read_credentials_158 sl (PStr p) s =
     (Inr (PTuple [PStr ''anonymous'', PNone]),
      s\<lparr>handles := handles s @ [\<lparr>f_path = p, f_text = t, f_open = True\<rparr>],
        out := out s @ [PStr ''Expected keys not found in file'']\<rparr>)"
  using assms by (rule rc158_missing_key)

theorem read_credentials_158_leaves_file_open_witness:
  "map_of (files example_state) ''datasource3.yaml'' = Some datasource3_text
   \<and> map_of [(''user'', PStr ''eidle''), (''password'', PStr ''secret'')] ''userid'' = None
   \<and> read_credentials_158 fixture_load (PStr ''datasource3.yaml'') example_state =
     (Inr (PTuple [PStr ''anonymous'', PNone]),
      example_state
       \<lparr>handles := handles example_state @
          [\<lparr>f_path = ''datasource3.yaml'', f_text = datasource3_text, f_open = True\<rparr>],
        out := out example_state @ [PStr ''Expected keys not found in file'']\<rparr>)"
  using
    read_credentials_158_leaves_file_open
      [where s = example_state and p = "''datasource3.yaml''" and t = datasource3_text
         and sl = fixture_load
         and d = "[(''user'', PStr ''eidle''), (''password'', PStr ''secret'')]"]
  by (simp add: example_yaml_bound example_datasource3)

text \<open>
  C3: in the third version, when opening the source raises \<open>FileNotFoundError\<close> the
  function does not return \<open>('anonymous', None)\<close>: the \<^verbatim>\<open>finally\<close> suite reads the local
  \<open>datasource\<close> while it is unbound, and the call raises \<open>UnboundLocalError\<close>, a
  subclass of \<open>NameError\<close>.
\<close>

theorem read_credentials_211_missing_file_raises:
  assumes "map_of (files s) p = None"
  shows "read_credentials_211 sl (PStr p) s = (Inl (Exn UnboundLocalError [] None), s)
     \<and> issubclass UnboundLocalError NameError
     \<and> fst (read_credentials_211 sl (PStr p) s) \<noteq> Inr (PTuple [PStr ''anonymous'', PNone])"
  using rc211_missing_file [OF assms, of sl]
  by (simp add: raised_def issubclass_def)

theorem read_credentials_211_missing_file_raises_witness:
  "map_of (files example_state) ''datasource.yaml'' = None
   \<and> read_credentials_211 fixture_load (PStr ''datasource.yaml'') example_state
       = (Inl (Exn UnboundLocalError [] None), example_state)"
  using read_credentials_211_missing_file_raises
      [where s = example_state and p = "''datasource.yaml''" and sl = fixture_load]
  by (simp add: example_datasource_missing)

text \<open>
  C1, as the code has it: for a readable file whose mapping has both keys, the three
  versions return the same pair and leave the same state, with the file closed. For a
  file whose mapping lacks \<open>userid\<close> or \<open>password\<close>, the first version returns
  \<open>('anonymous', None)\<close>, while the second and the third, which have no \<open>KeyError\<close>
  clause, close the file and raise \<open>KeyError\<close>.
\<close>

theorem read_credentials_versions_compared:
  assumes "map_of (globals s) ''yaml'' = Some (PModule ''yaml'')"
    and "map_of (files s) p = Some t" and "sl t = Inr (PDict d)"
  shows
    "(map_of d ''userid'' = Some u \<and> map_of d ''password'' = Some pw \<longrightarrow>
        fst (read_credentials_158 sl (PStr p) s) = Inr (PTuple [u, pw])
        \<and> read_credentials_190 sl (PStr p) s = read_credentials_158 sl (PStr p) s
        \<and> read_credentials_211 sl (PStr p) s = read_credentials_158 sl (PStr p) s)
     \<and> (map_of d ''userid'' = None \<or> map_of d ''password'' = None \<longrightarrow>
        fst (read_credentials_158 sl (PStr p) s) = Inr (PTuple [PStr ''anonymous'', PNone])
        \<and> read_credentials_190 sl (PStr p) s =
            (Inl (Exn KeyError [] None),
             s\<lparr>handles := handles s @ [\<lparr>f_path = p, f_text = t, f_open = False\<rparr>]\<rparr>)
        \<and> read_credentials_211 sl (PStr p) s = read_credentials_190 sl (PStr p) s)"
proof (intro conjI impI)
  assume k: "map_of d ''userid'' = Some u \<and> map_of d ''password'' = Some pw"
  from k assms show "fst (read_credentials_158 sl (PStr p) s) = Inr (PTuple [u, pw])"
    by (simp add: rc158_both_keys)
  from k assms show "read_credentials_190 sl (PStr p) s = read_credentials_158 sl (PStr p) s"
    by (simp add: rc158_both_keys rc190_both_keys)
  from k assms show "read_credentials_211 sl (PStr p) s = read_credentials_158 sl (PStr p) s"
    by (simp add: rc158_both_keys rc211_both_keys)
next
  assume k: "map_of d ''userid'' = None \<or> map_of d ''password'' = None"
  from k assms
  show "fst (read_credentials_158 sl (PStr p) s) = Inr (PTuple [PStr ''anonymous'', PNone])"
    by (simp add: rc158_missing_key)
  from k assms
  show "read_credentials_190 sl (PStr p) s =
      (Inl (Exn KeyError [] None),
       s\<lparr>handles := handles s @ [\<lparr>f_path = p, f_text = t, f_open = False\<rparr>]\<rparr>)"
    by (simp add: rc190_missing_key [unfolded raised_def])
  from k assms
  show "read_credentials_211 sl (PStr p) s = read_credentials_190 sl (PStr p) s"
    by (simp add: rc190_missing_key rc211_missing_key)
qed

theorem read_credentials_versions_compared_witness:
  "(fst (read_credentials_158 fixture_load (PStr ''datasource2.yaml'') example_state)
      = Inr (PTuple [PStr ''eidle'', PStr ''secret''])
    \<and> read_credentials_190 fixture_load (PStr ''datasource2.yaml'') example_state
      = read_credentials_158 fixture_load (PStr ''datasource2.yaml'') example_state
    \<and> read_credentials_211 fixture_load (PStr ''datasource2.yaml'') example_state
      = read_credentials_158 fixture_load (PStr ''datasource2.yaml'') example_state)
   \<and> (fst (read_credentials_158 fixture_load (PStr ''datasource3.yaml'') example_state)
      = Inr (PTuple [PStr ''anonymous'', PNone])
    \<and> fst (read_credentials_190 fixture_load (PStr ''datasource3.yaml'') example_state)
      = Inl (Exn KeyError [] None)
    \<and> fst (read_credentials_211 fixture_load (PStr ''datasource3.yaml'') example_state)
      = Inl (Exn KeyError [] None))"
  using
    read_credentials_versions_compared
      [where sl = fixture_load and u = "PStr ''eidle''" and pw = "PStr ''secret''",
       OF example_yaml_bound example_datasource2]
    read_credentials_versions_compared
      [where sl = fixture_load and u = PNone and pw = PNone,
       OF example_yaml_bound example_datasource3]
  by simp

text \<open>
  The claim C1 as it is written fails on the fixture \<^verbatim>\<open>datasource3.yaml\<close>, which has the
  key \<open>user\<close> instead of \<open>userid\<close>: the first version returns \<open>('anonymous', None)\<close>, the
  second raises \<open>KeyError\<close>.
\<close>

theorem read_credentials_versions_counterexample:
  "fst (read_credentials_158 fixture_load (PStr ''datasource3.yaml'') example_state)
     = Inr (PTuple [PStr ''anonymous'', PNone])
   \<and> fst (read_credentials_190 fixture_load (PStr ''datasource3.yaml'') example_state)
     = Inl (Exn KeyError [] None)
   \<and> fst (read_credentials_158 fixture_load (PStr ''datasource3.yaml'') example_state)
     \<noteq> fst (read_credentials_190 fixture_load (PStr ''datasource3.yaml'') example_state)"
  using
    rc158_missing_key [where sl = fixture_load, OF example_yaml_bound example_datasource3]
    rc190_missing_key [where sl = fixture_load, OF example_yaml_bound example_datasource3]
  by (simp add: raised_def)

section \<open>The call chain\<close>

lemma f4_cases:
  "f4_237 x s =
     ((if int_eq x 1 then Inl (raised ArithmeticError)
       else if int_eq x 2 then Inl (raised SyntaxError)
       else if int_eq x 3 then Inl (raised TypeError)
       else Inr PNone), s)"
  unfolding f4_237_def by (auto simp add: py_defs int_eq_def split: pyval.splits)

lemma f3_cases:
  assumes "map_of (globals s) ''f4'' = Some (PFunc ''f4'' 237)"
  shows "f3_249 x s =
    (if int_eq x 1
     then (Inr PNone,
           s\<lparr>out := out s @ [PStr ''F3Before'', PStr (''F3Except ('' @ bomb @ '')'')]\<rparr>)
     else if int_eq x 2
     then (Inl (raised SyntaxError), s\<lparr>out := out s @ [PStr ''F3Before'']\<rparr>)
     else if int_eq x 3
     then (Inl (raised TypeError), s\<lparr>out := out s @ [PStr ''F3Before'']\<rparr>)
     else (Inr PNone, s\<lparr>out := out s @ [PStr ''F3Before'', PStr ''F3After'']\<rparr>))"
  using assms unfolding f3_249_def
  by (simp add: py_defs f4_cases)

lemma f2_cases:
  assumes "map_of (globals s) ''f4'' = Some (PFunc ''f4'' 237)"
    and "map_of (globals s) ''f3'' = Some (PFunc ''f3'' 249)"
  shows "f2_259 x s =
    (if int_eq x 1
     then (Inr PNone,
           s\<lparr>out := out s @ [PStr ''F2Before'', PStr ''F3Before'',
                PStr (''F3Except ('' @ bomb @ '')''), PStr ''F2After'']\<rparr>)
     else if int_eq x 2
     then (Inr PNone,
           s\<lparr>out := out s @ [PStr ''F2Before'', PStr ''F3Before'',
                PStr (''F2Except ('' @ bomb @ '')'')]\<rparr>)
     else if int_eq x 3
     then (Inl (raised TypeError),
           s\<lparr>out := out s @ [PStr ''F2Before'', PStr ''F3Before'']\<rparr>)
     else (Inr PNone,
           s\<lparr>out := out s @ [PStr ''F2Before'', PStr ''F3Before'', PStr ''F3After'',
                PStr ''F2After'']\<rparr>))"
  using assms unfolding f2_259_def
  by (simp add: py_defs f3_cases)

lemma f1_cases:
  assumes "map_of (globals s) ''f4'' = Some (PFunc ''f4'' 237)"
    and "map_of (globals s) ''f3'' = Some (PFunc ''f3'' 249)"
    and "map_of (globals s) ''f2'' = Some (PFunc ''f2'' 259)"
  shows "f1_269 x s =
    (Inr PNone,
     s\<lparr>out := out s @
       (if int_eq x 1
        then [PStr ''F1Before'', PStr ''F2Before'', PStr ''F3Before'',
              PStr (''F3Except ('' @ bomb @ '')''), PStr ''F2After'', PStr ''F1After'']
        else if int_eq x 2
        then [PStr ''F1Before'', PStr ''F2Before'', PStr ''F3Before'',
              PStr (''F2Except ('' @ bomb @ '')''), PStr ''F1After'']
        else if int_eq x 3
        then [PStr ''F1Before'', PStr ''F2Before'', PStr ''F3Before'',
              PStr (''F1Except ('' @ bomb @ '')'')]
        else [PStr ''F1Before'', PStr ''F2Before'', PStr ''F3Before'', PStr ''F3After'',
              PStr ''F2After'', PStr ''F1After''])\<rparr>)"
  using assms unfolding f1_269_def
  by (simp add: py_defs f2_cases)

lemma example_chain_bound:
  "map_of (globals example_state) ''f4'' = Some (PFunc ''f4'' 237)"
  "map_of (globals example_state) ''f3'' = Some (PFunc ''f3'' 249)"
  "map_of (globals example_state) ''f2'' = Some (PFunc ''f2'' 259)"
  by (simp_all add: example_state_def)

text \<open>
  C5: an exception raised in \<open>f4\<close> goes up the chain to the first handler whose class
  matches. For \<open>x = 1\<close> the \<open>ArithmeticError\<close> leaves \<open>f4\<close> and \<open>f3\<close> returns normally after
  printing its handler's line; for \<open>x = 2\<close> the \<open>SyntaxError\<close> leaves \<open>f3\<close> and \<open>f2\<close>
  handles it; for \<open>x = 3\<close> the \<open>TypeError\<close> leaves \<open>f3\<close> and \<open>f2\<close> and \<open>f1\<close> handles it.
  For every argument, so for 0, 1, 2 and 3, \<open>f1\<close> returns normally; the lines printed show
  which handler ran and which calls were cut short.
\<close>

theorem f1_chain_handlers:
  assumes "map_of (globals s) ''f4'' = Some (PFunc ''f4'' 237)"
    and "map_of (globals s) ''f3'' = Some (PFunc ''f3'' 249)"
    and "map_of (globals s) ''f2'' = Some (PFunc ''f2'' 259)"
  shows
    "fst (f4_237 (PInt 1) s) = Inl (Exn ArithmeticError [] None)
     \<and> fst (f3_249 (PInt 1) s) = Inr PNone
     \<and> fst (f4_237 (PInt 2) s) = Inl (Exn SyntaxError [] None)
     \<and> fst (f3_249 (PInt 2) s) = Inl (Exn SyntaxError [] None)
     \<and> fst (f2_259 (PInt 2) s) = Inr PNone
     \<and> fst (f4_237 (PInt 3) s) = Inl (Exn TypeError [] None)
     \<and> fst (f3_249 (PInt 3) s) = Inl (Exn TypeError [] None)
     \<and> fst (f2_259 (PInt 3) s) = Inl (Exn TypeError [] None)
     \<and> fst (f1_269 x s) = Inr PNone
     \<and> out (snd (f1_269 (PInt 0) s)) = out s @
         [PStr ''F1Before'', PStr ''F2Before'', PStr ''F3Before'', PStr ''F3After'',
          PStr ''F2After'', PStr ''F1After'']
     \<and> out (snd (f1_269 (PInt 1) s)) = out s @
         [PStr ''F1Before'', PStr ''F2Before'', PStr ''F3Before'',
          PStr (''F3Except ('' @ bomb @ '')''), PStr ''F2After'', PStr ''F1After'']
     \<and> out (snd (f1_269 (PInt 2) s)) = out s @
         [PStr ''F1Before'', PStr ''F2Before'', PStr ''F3Before'',
          PStr (''F2Except ('' @ bomb @ '')''), PStr ''F1After'']
     \<and> out (snd (f1_269 (PInt 3) s)) = out s @
         [PStr ''F1Before'', PStr ''F2Before'', PStr ''F3Before'',
          PStr (''F1Except ('' @ bomb @ '')'')]"
proof -
  note a = assms
  have f4: "fst (f4_237 (PInt 1) s) = Inl (Exn ArithmeticError [] None)"
    "fst (f4_237 (PInt 2) s) = Inl (Exn SyntaxError [] None)"
    "fst (f4_237 (PInt 3) s) = Inl (Exn TypeError [] None)"
    by (simp_all add: f4_cases raised_def int_eq_def)
  have f3: "fst (f3_249 (PInt 1) s) = Inr PNone"
    "fst (f3_249 (PInt 2) s) = Inl (Exn SyntaxError [] None)"
    "fst (f3_249 (PInt 3) s) = Inl (Exn TypeError [] None)"
    by (simp_all add: f3_cases [OF a(1)] raised_def int_eq_def)
  have f2: "fst (f2_259 (PInt 2) s) = Inr PNone"
    "fst (f2_259 (PInt 3) s) = Inl (Exn TypeError [] None)"
    by (simp_all add: f2_cases [OF a(1) a(2)] raised_def int_eq_def)
  have f1: "fst (f1_269 x s) = Inr PNone"
    by (simp add: f1_cases [OF a])
  have tr: "out (snd (f1_269 (PInt 0) s)) = out s @
         [PStr ''F1Before'', PStr ''F2Before'', PStr ''F3Before'', PStr ''F3After'',
          PStr ''F2After'', PStr ''F1After'']"
    "out (snd (f1_269 (PInt 1) s)) = out s @
         [PStr ''F1Before'', PStr ''F2Before'', PStr ''F3Before'',
          PStr (''F3Except ('' @ bomb @ '')''), PStr ''F2After'', PStr ''F1After'']"
    "out (snd (f1_269 (PInt 2) s)) = out s @
         [PStr ''F1Before'', PStr ''F2Before'', PStr ''F3Before'',
          PStr (''F2Except ('' @ bomb @ '')''), PStr ''F1After'']"
    "out (snd (f1_269 (PInt 3) s)) = out s @
         [PStr ''F1Before'', PStr ''F2Before'', PStr ''F3Before'',
          PStr (''F1Except ('' @ bomb @ '')'')]"
    by (simp_all add: f1_cases [OF a] int_eq_def)
  from f4 f3 f2 f1 tr show ?thesis by blast
qed

theorem f1_chain_handlers_witness:
  "map_of (globals example_state) ''f2'' = Some (PFunc ''f2'' 259)
   \<and> fst (f3_249 (PInt 1) example_state) = Inr PNone
   \<and> fst (f2_259 (PInt 2) example_state) = Inr PNone
   \<and> fst (f1_269 (PInt 3) example_state) = Inr PNone
   \<and> out (snd (f1_269 (PInt 3) example_state)) = out example_state @
         [PStr ''F1Before'', PStr ''F2Before'', PStr ''F3Before'',
          PStr (''F1Except ('' @ bomb @ '')'')]"
  using f1_chain_handlers [OF example_chain_bound, of "PInt 3"]
  by (simp add: example_chain_bound)

section \<open>Exception chaining\<close>

lemma example_lower_bound:
  "map_of (globals example_state) ''lower_function'' = Some (PFunc ''lower_function'' 407)"
  by (simp add: example_state_def)

text \<open>
  C6: \<open>lower_function\<close> raises a \<open>ValueError\<close>, and calling \<open>higher_function\<close> raises a
  \<open>RuntimeError\<close> whose cause is that \<open>ValueError\<close>.
\<close>

theorem higher_function_chains_cause:
  assumes "map_of (globals s) ''lower_function'' = Some (PFunc ''lower_function'' 407)"
  shows "lower_function_407 s = (Inl (Exn ValueError ''Error in lower function!'' None), s)
     \<and> higher_function_411 s =
         (Inl (Exn RuntimeError ''Error in higher function!''
                (Some (Exn ValueError ''Error in lower function!'' None))), s)"
  using assms unfolding higher_function_411_def lower_function_407_def
  by (simp add: py_defs)

theorem higher_function_chains_cause_witness:
  "map_of (globals example_state) ''lower_function'' = Some (PFunc ''lower_function'' 407)
   \<and> higher_function_411 example_state =
         (Inl (Exn RuntimeError ''Error in higher function!''
                (Some (Exn ValueError ''Error in lower function!'' None))), example_state)"
  using higher_function_chains_cause [OF example_lower_bound]
  by (simp add: example_lower_bound)

section \<open>The final version of \<open>analysis\<close>\<close>

lemma analysis_366_dict:
  assumes "map_of d ''modelname'' = Some v"
  shows "analysis_366 sl (PDict d) s = (Inr PNone, s\<lparr>out := out s @ [v]\<rparr>)"
  using assms unfolding analysis_366_def by (simp add: py_defs)

lemma analysis_366_file:
  assumes "map_of (globals s) ''yaml'' = Some (PModule ''yaml'')"
    and "map_of (files s) p = Some t" and "sl t = Inr (PDict d)"
    and "map_of d ''modelname'' = Some v"
  shows "analysis_366 sl (PStr p) s =
     (Inr PNone,
      s\<lparr>handles := handles s @ [\<lparr>f_path = p, f_text = t, f_open = True\<rparr>],
        out := out s @ [v]\<rparr>)"
  using assms unfolding analysis_366_def by (simp add: py_defs)

lemma analysis_366_raw:
  assumes "map_of (globals s) ''yaml'' = Some (PModule ''yaml'')"
    and "map_of (files s) t = None" and "sl t = Inr (PDict d)"
    and "map_of d ''modelname'' = Some v"
  shows "analysis_366 sl (PStr t) s = (Inr PNone, s\<lparr>out := out s @ [v]\<rparr>)"
  using assms unfolding analysis_366_def by (simp add: py_defs)

lemma example_example_yaml:
  "map_of (files example_state) ''example.yaml'' = Some example_text"
  "fixture_load example_text = Inr (PDict [(''modelname'', PStr ''brilliant'')])"
  by (simp_all add: fixture_defs)

lemma example_raw_yaml:
  "map_of (files example_state) ''modelname: Amazing'' = None"
  "fixture_load ''modelname: Amazing'' = Inr (PDict [(''modelname'', PStr ''Amazing'')])"
  by (simp_all add: fixture_defs)

text \<open>
  C7: the final version of \<open>analysis\<close> returns normally, having printed the value under
  \<open>modelname\<close>, for a dictionary with that key; for a string that names a file of the
  directory whose YAML is a mapping with that key; and for a string that names no file
  and is itself YAML for a mapping with that key.
\<close>

theorem analysis_366_three_sources:
  assumes "map_of (globals s) ''yaml'' = Some (PModule ''yaml'')"
    and "map_of d ''modelname'' = Some v"
  shows
    "fst (analysis_366 sl (PDict d) s) = Inr PNone
     \<and> out (snd (analysis_366 sl (PDict d) s)) = out s @ [v]
     \<and> (map_of (files s) p = Some t \<and> sl t = Inr (PDict d) \<longrightarrow>
          fst (analysis_366 sl (PStr p) s) = Inr PNone
          \<and> out (snd (analysis_366 sl (PStr p) s)) = out s @ [v])
     \<and> (map_of (files s) r = None \<and> sl r = Inr (PDict d) \<longrightarrow>
          fst (analysis_366 sl (PStr r) s) = Inr PNone
          \<and> out (snd (analysis_366 sl (PStr r) s)) = out s @ [v])"
  using assms
  by (simp add: analysis_366_dict analysis_366_file analysis_366_raw)

theorem analysis_366_three_sources_witness:
  "out (snd (analysis_366 fixture_load (PDict [(''modelname'', PStr ''Super'')]) example_state))
     = [PStr ''Super'']
   \<and> fst (analysis_366 fixture_load (PStr ''example.yaml'') example_state) = Inr PNone
   \<and> out (snd (analysis_366 fixture_load (PStr ''example.yaml'') example_state))
     = [PStr ''brilliant'']
   \<and> fst (analysis_366 fixture_load (PStr ''modelname: Amazing'') example_state) = Inr PNone
   \<and> out (snd (analysis_366 fixture_load (PStr ''modelname: Amazing'') example_state))
     = [PStr ''Amazing'']"
  using
    analysis_366_three_sources
      [OF example_yaml_bound,
       where d = "[(''modelname'', PStr ''Super'')]" and v = "PStr ''Super''"
         and sl = fixture_load and p = "''datasource.yaml''" and r = "''example.yaml''"]
    analysis_366_three_sources
      [OF example_yaml_bound,
       where d = "[(''modelname'', PStr ''brilliant'')]" and v = "PStr ''brilliant''"
         and sl = fixture_load and p = "''example.yaml''" and t = example_text
         and r = "''example.yaml''"]
    analysis_366_three_sources
      [OF example_yaml_bound,
       where d = "[(''modelname'', PStr ''Amazing'')]" and v = "PStr ''Amazing''"
         and sl = fixture_load and p = "''datasource.yaml''" and r = "''modelname: Amazing''"]
  by (simp add: example_example_yaml example_raw_yaml example_datasource_missing
        example_state_def)

section \<open>Comprehensions and loops\<close>

lemma for_loop_append:
  "for_loop (\<lambda>x result. append result (f x)) xs acc = acc @ map f xs"
  by (induction xs arbitrary: acc) (simp_all add: append_def)

lemma for_loop_append_if:
  "for_loop (\<lambda>x result. if P x then append result (f x) else result) xs acc
     = acc @ [f x. x \<leftarrow> xs, P x]"
  by (induction xs arbitrary: acc) (simp_all add: append_def)

text \<open>
  C4: for every bound of the range, so for 10 and for 30, the list comprehension of line
  25 is the list that the loop of lines 31 to 35 builds by appending, and the filtered
  comprehension of line 50 is the list that the loop of lines 66 to 70 builds.
\<close>

theorem comprehensions_equal_loops:
  "comprehension_25 n = loop_31 n \<and> comprehension_50 n = loop_66 n"
  by (simp add: comprehension_25_def loop_31_def comprehension_50_def loop_66_def
        for_loop_append for_loop_append_if)

lemma comprehension_25_at_10:
  "comprehension_25 10 = [1, 2, 4, 8, 16, 32, 64, 128, 256, 512]"
  by code_simp

lemma comprehension_50_at_30:
  "comprehension_50 30 =
     [1, 8, 64, 512, 4096, 32768, 262144, 2097152, 16777216, 134217728]"
  by code_simp

section \<open>Running the two notebooks\<close>

lemmas nb_defs =
  display_def import_module_def def_stmt_def truediv_def getmro_def py_iter_def
  for_stmt_def raise_instance_def with_open_w_def read_credentials_defs_def
  analysis_defs_def initial_state_def observed_def isolated_def

lemmas cell_defs =
  cell_25_def cell_34_def cell_46_def cell_52_def cell_65_def cell_81_def cell_100_def
  cell_124_def cell_145_def cell_158_def cell_177_def cell_180_def cell_183_def
  cell_190_def cell_211_def cell_237_def cell_249_def cell_259_def cell_269_def
  cell_279_def cell_282_def cell_285_def cell_288_def cell_314_def cell_328_def
  cell_331_def cell_335_def cell_348_def cell_366_def cell_395_def cell_407_def

lemmas fun_defs =
  read_credentials_158_def read_credentials_190_def read_credentials_211_def
  f4_237_def f3_249_def f2_259_def f1_269_def lower_function_407_def
  higher_function_411_def analysis_317_def analysis_348_def analysis_366_def

lemmas text_defs = datasource2_text_def datasource3_text_def example_text_def nl_def

lemma fixture_load_loads: "loads_fixtures fixture_load"
  by (simp add: loads_fixtures_def fixture_load_def text_defs)

lemma exceptions_run:
  assumes "loads_fixtures sl"
  shows "run_cells (exceptions_notebook sl) initial_state =
     [Raise (Exn ZeroDivisionError [] None), Next,
      Raise (Exn TypeError [] None), Next,
      Raise (Exn MyCustomErrorType_65 ''Problem'' None),
      Raise (Exn MyCustomErrorType_81 ''404'' None),
      Next, Next, Next, Next, Next, Next, Next, Next, Next, Next, Next, Next,
      Next, Next, Next, Next, Next, Next, Next, Next, Next, Next, Next, Next,
      Raise (Exn RuntimeError ''Error in higher function!''
              (Some (Exn ValueError ''Error in lower function!'' None)))]"
  using assms unfolding exceptions_notebook_def loads_fixtures_def
  by (simp add: cell_defs nb_defs py_defs fun_defs int_eq_def text_defs nth_append)

lemma comprehensions_run:
  "run_cells comprehensions_notebook initial_state = replicate 20 Next"
  by code_simp

lemma exceptions_independent:
  assumes "loads_fixtures sl"
  shows "independent_cells (exceptions_notebook sl) initial_state =
     [True, True, True, False, True, True, True, True, True, True,
      False, False, False, True, True, True, True, True, True,
      False, False, False, False, True, False, True, False, False, False,
      True, True]"
  using assms unfolding exceptions_notebook_def loads_fixtures_def
  by (simp add: cell_defs nb_defs py_defs fun_defs int_eq_def text_defs nth_append)

lemma exceptions_isolated:
  assumes "loads_fixtures sl"
  shows "isolated_flows (exceptions_notebook sl) initial_state =
     [Raise (Exn ZeroDivisionError [] None), Next,
      Raise (Exn TypeError [] None), Raise (Exn NameError [] None),
      Raise (Exn MyCustomErrorType_65 ''Problem'' None),
      Raise (Exn MyCustomErrorType_81 ''404'' None),
      Next, Next, Next, Next,
      Raise (Exn NameError [] None), Raise (Exn NameError [] None),
      Raise (Exn NameError [] None),
      Next, Next, Next, Next, Next, Next,
      Raise (Exn NameError [] None), Raise (Exn NameError [] None),
      Raise (Exn NameError [] None), Raise (Exn NameError [] None),
      Next, Raise (Exn NameError [] None), Next,
      Raise (Exn NameError [] None), Raise (Exn NameError [] None),
      Raise (Exn NameError [] None), Next,
      Raise (Exn RuntimeError ''Error in higher function!''
              (Some (Exn ValueError ''Error in lower function!'' None)))]"
  using assms unfolding exceptions_notebook_def loads_fixtures_def
  by (simp add: cell_defs nb_defs py_defs fun_defs int_eq_def text_defs nth_append)

lemma comprehensions_independent:
  "independent_cells comprehensions_notebook initial_state = replicate 20 True"
  by code_simp

text \<open>
  C8, as the code has it: run in sequence from a new kernel, every cell of the two
  notebooks runs to its end within the cell, and five cells of the exceptions notebook
  end with an uncaught exception, as the notebook means them to: the cells at lines 25
  (\<open>ZeroDivisionError\<close>), 46 (\<open>TypeError\<close>), 65 and 81 (\<open>MyCustomErrorType\<close>) and 407
  (\<open>RuntimeError\<close>). The other twenty-six cells of that notebook and the twenty cells of
  the comprehensions notebook end without an exception.
\<close>

theorem notebooks_run_outcomes:
  assumes "loads_fixtures sl"
  shows "run_cells (exceptions_notebook sl) initial_state =
     [Raise (Exn ZeroDivisionError [] None), Next,
      Raise (Exn TypeError [] None), Next,
      Raise (Exn MyCustomErrorType_65 ''Problem'' None),
      Raise (Exn MyCustomErrorType_81 ''404'' None),
      Next, Next, Next, Next, Next, Next, Next, Next, Next, Next, Next, Next,
      Next, Next, Next, Next, Next, Next, Next, Next, Next, Next, Next, Next,
      Raise (Exn RuntimeError ''Error in higher function!''
              (Some (Exn ValueError ''Error in lower function!'' None)))]
     \<and> run_cells comprehensions_notebook initial_state = replicate 20 Next"
  using exceptions_run [OF assms] comprehensions_run by (rule conjI)

theorem notebooks_run_outcomes_witness:
  "loads_fixtures fixture_load
   \<and> run_cells (exceptions_notebook fixture_load) initial_state =
     [Raise (Exn ZeroDivisionError [] None), Next,
      Raise (Exn TypeError [] None), Next,
      Raise (Exn MyCustomErrorType_65 ''Problem'' None),
      Raise (Exn MyCustomErrorType_81 ''404'' None),
      Next, Next, Next, Next, Next, Next, Next, Next, Next, Next, Next, Next,
      Next, Next, Next, Next, Next, Next, Next, Next, Next, Next, Next, Next,
      Raise (Exn RuntimeError ''Error in higher function!''
              (Some (Exn ValueError ''Error in lower function!'' None)))]"
  using notebooks_run_outcomes [OF fixture_load_loads] fixture_load_loads by blast

text \<open>
  The claim C8 as it is written fails at the first cell of the exceptions notebook,
  \<^verbatim>\<open>1/0\<close>, which ends with an uncaught \<open>ZeroDivisionError\<close>.
\<close>

theorem cell_25_counterexample:
  "fst (cell_25 initial_state) = Raise (Exn ZeroDivisionError [] None)"
  by (simp add: cell_25_def truediv_def raised_def)

text \<open>
  C9, as the code has it: some cells use bindings that earlier cells made. Run from an
  empty module namespace, the cells of the exceptions notebook at lines 52, 177, 180,
  183, 279, 282, 285, 288, 328, 335, 348 and 366 end in \<open>NameError\<close>, while after the
  cells before them they end normally. Every other cell of the two notebooks ends the
  same way, prints the same and displays the same from an empty namespace as after the
  cells before it.
\<close>

theorem notebooks_cell_dependence:
  assumes "loads_fixtures sl"
  shows "independent_cells (exceptions_notebook sl) initial_state =
     [True, True, True, False, True, True, True, True, True, True,
      False, False, False, True, True, True, True, True, True,
      False, False, False, False, True, False, True, False, False, False,
      True, True]
     \<and> isolated_flows (exceptions_notebook sl) initial_state =
     [Raise (Exn ZeroDivisionError [] None), Next,
      Raise (Exn TypeError [] None), Raise (Exn NameError [] None),
      Raise (Exn MyCustomErrorType_65 ''Problem'' None),
      Raise (Exn MyCustomErrorType_81 ''404'' None),
      Next, Next, Next, Next,
      Raise (Exn NameError [] None), Raise (Exn NameError [] None),
      Raise (Exn NameError [] None),
      Next, Next, Next, Next, Next, Next,
      Raise (Exn NameError [] None), Raise (Exn NameError [] None),
      Raise (Exn NameError [] None), Raise (Exn NameError [] None),
      Next, Raise (Exn NameError [] None), Next,
      Raise (Exn NameError [] None), Raise (Exn NameError [] None),
      Raise (Exn NameError [] None), Next,
      Raise (Exn RuntimeError ''Error in higher function!''
              (Some (Exn ValueError ''Error in lower function!'' None)))]
     \<and> independent_cells comprehensions_notebook initial_state = replicate 20 True"
  using exceptions_independent [OF assms] exceptions_isolated [OF assms]
    comprehensions_independent
  by blast

theorem notebooks_cell_dependence_witness:
  "loads_fixtures fixture_load
   \<and> independent_cells (exceptions_notebook fixture_load) initial_state =
     [True, True, True, False, True, True, True, True, True, True,
      False, False, False, True, True, True, True, True, True,
      False, False, False, False, True, False, True, False, False, False,
      True, True]"
  using notebooks_cell_dependence [OF fixture_load_loads] fixture_load_loads by blast

text \<open>
  The claim C9 as it is written fails at the cell of line 177,
  \<^verbatim>\<open>print(read_credentials('datasource2.yaml'))\<close>: after the ten cells before it, it prints
  the pair read from the file; from an empty module namespace the name
  \<open>read_credentials\<close> is unbound and the cell ends in \<open>NameError\<close>.
\<close>

theorem cell_177_counterexample:
  "observed (cell_177 fixture_load)
      (state_after (take 10 (exceptions_notebook fixture_load)) initial_state)
     = (Next,
        [PStr ''No password file found, using anonymous user.'', PStr ''anonymous'',
         PStr ''anonymous'', PTuple [PStr ''eidle'', PStr ''secret'']],
        [PTuple [PClass ZeroDivisionError, PClass ArithmeticError, PClass Exception,
                 PClass BaseException, PClass Object],
         PTuple [PClass TypeError, PClass Exception, PClass BaseException, PClass Object]])
   \<and> observed (cell_177 fixture_load)
      (isolated (state_after (take 10 (exceptions_notebook fixture_load)) initial_state))
     = (Raise (Exn NameError [] None),
        [PStr ''No password file found, using anonymous user.'', PStr ''anonymous'',
         PStr ''anonymous''],
        [PTuple [PClass ZeroDivisionError, PClass ArithmeticError, PClass Exception,
                 PClass BaseException, PClass Object],
         PTuple [PClass TypeError, PClass Exception, PClass BaseException, PClass Object]])"
  by code_simp

end
